theory Spec2Isabelle
  imports Main
begin

section \<open>Values, dialects and the binder state\<close>

text \<open>
  Go's \<^verbatim>\<open>type Dialect string\<close>: a dialect is any string; the six constants are the
  built-in ones, and every \<^verbatim>\<open>switch qa.dialect\<close> of the source has a \<^verbatim>\<open>default\<close> branch
  for all other strings.
\<close>

type_synonym Dialect = string

definition DialectPostgres :: Dialect where "DialectPostgres = ''postgres''"
definition DialectMySQL :: Dialect where "DialectMySQL = ''mysql''"
definition DialectSQLite :: Dialect where "DialectSQLite = ''sqlite''"
definition DialectSQLServer :: Dialect where "DialectSQLServer = ''sqlserver''"
definition DialectSnowflake :: Dialect where "DialectSnowflake = ''snowflake''"
definition DialectOracle :: Dialect where "DialectOracle = ''oracle''"

text \<open>
  A value of Go's interface type \<^verbatim>\<open>any\<close>, by its runtime shape. \<open>NilInterface\<close> is the
  untyped \<^verbatim>\<open>nil\<close>; \<open>NilSlice\<close> is a nil slice of some slice type (\<^verbatim>\<open>[]int(nil)\<close>);
  \<open>NamedStringVal\<close> is a value of a defined type whose underlying type is \<^verbatim>\<open>string\<close>
  (such as \<^verbatim>\<open>Dialect\<close>); \<open>NilPointer\<close> is a nil pointer of some pointer type;
  \<open>OtherVal\<close> stands for every other non-collection value (a struct, a map, a float,
  ...), told apart by a tag. Arrays have no nil value in Go.
\<close>

datatype any =
    NilInterface
  | BoolVal bool
  | IntVal int
  | StringVal string
  | NamedStringVal string
  | SliceVal "any list"
  | NilSlice
  | ArrayVal "any list"
  | NilPointer
  | OtherVal nat

text \<open>The part of package \<^verbatim>\<open>reflect\<close> that \<^verbatim>\<open>Bind\<close> uses, on \<^verbatim>\<open>reflect.ValueOf(arg)\<close>.\<close>

datatype reflect_Kind = Invalid | Bool_kind | Int_kind | String_kind | Slice | Array | Pointer | Other

fun IsValid :: "any \<Rightarrow> bool" where
  "IsValid NilInterface = False"
| "IsValid _ = True"

fun Kind :: "any \<Rightarrow> reflect_Kind" where
  "Kind NilInterface = Invalid"
| "Kind (BoolVal _) = Bool_kind"
| "Kind (IntVal _) = Int_kind"
| "Kind (StringVal _) = String_kind"
| "Kind (NamedStringVal _) = String_kind"
| "Kind (SliceVal _) = Slice"
| "Kind NilSlice = Slice"
| "Kind (ArrayVal _) = Array"
| "Kind NilPointer = Pointer"
| "Kind (OtherVal _) = Other"

text \<open>The type assertion \<^verbatim>\<open>s, ok := name.(string)\<close>: \<open>None\<close> is \<^verbatim>\<open>ok == false\<close>.\<close>

fun assert_string :: "any \<Rightarrow> string option" where
  "assert_string (StringVal s) = Some s"
| "assert_string _ = None"

text \<open>
  The elements of a slice or array; \<^verbatim>\<open>v.Len()\<close> is their number and \<^verbatim>\<open>v.Index(i).Interface()\<close>
  the \<open>i\<close>-th of them. A nil slice has length 0. The source calls \<^verbatim>\<open>Len\<close> and \<^verbatim>\<open>Index\<close>
  only under \<^verbatim>\<open>case reflect.Slice, reflect.Array\<close>, and \<^verbatim>\<open>Index\<close> only below \<^verbatim>\<open>Len\<close>.
\<close>

fun elements :: "any \<Rightarrow> any list" where
  "elements (SliceVal xs) = xs"
| "elements (ArrayVal xs) = xs"
| "elements _ = []"

definition Len :: "any \<Rightarrow> nat" where
  "Len v = length (elements v)"

definition Index :: "any \<Rightarrow> nat \<Rightarrow> any" where
  "Index v i = elements v ! i"

text \<open>
  \<^verbatim>\<open>type QueryArgs struct { args []any; dialect Dialect }\<close>. A nil \<^verbatim>\<open>[]any\<close> and an empty one
  are both the empty list: \<^verbatim>\<open>append\<close> and \<^verbatim>\<open>len\<close> do not tell them apart.
\<close>

record QueryArgs =
  args :: "any list"
  dialect :: Dialect

definition NewQueryArgs :: "Dialect \<Rightarrow> QueryArgs" where
  "NewQueryArgs d = \<lparr>args = [], dialect = d\<rparr>"

section \<open>Formatting\<close>

text \<open>
  \<^verbatim>\<open>fmt.Sprintf("%d", n)\<close>: the decimal digits of \<open>n\<close>, most significant first, with a
  minus sign for a negative number. Go's \<^verbatim>\<open>int\<close> is modelled unbounded; the source only
  formats \<^verbatim>\<open>len(qa.args)\<close>.
\<close>

definition digit :: "nat \<Rightarrow> char" where
  "digit n = ''0123456789'' ! n"

fun decimal :: "nat \<Rightarrow> string" where
  "decimal n = (if n < 10 then [digit n] else decimal (n div 10) @ [digit (n mod 10)])"

declare decimal.simps [simp del]

definition fmt_d :: "int \<Rightarrow> string" where
  "fmt_d i = (if i < 0 then ''-'' @ decimal (nat (- i)) else decimal (nat i))"

text \<open>\<^verbatim>\<open>strings.Join(elems, sep)\<close>.\<close>

fun strings_Join :: "string list \<Rightarrow> string \<Rightarrow> string" where
  "strings_Join [] sep = []"
| "strings_Join [x] sep = x"
| "strings_Join (x # y # ys) sep = x @ sep @ strings_Join (y # ys) sep"

section \<open>The binder: \<^verbatim>\<open>placeholderFor\<close> and \<^verbatim>\<open>Bind\<close>\<close>

definition placeholderFor :: "QueryArgs \<Rightarrow> int \<Rightarrow> string" where
  "placeholderFor qa n =
     (if dialect qa = DialectPostgres then ''$'' @ fmt_d n
      else if dialect qa = DialectSQLServer then ''@p'' @ fmt_d n
      else if dialect qa = DialectOracle then '':'' @ fmt_d n
      else ''?'')"

text \<open>
  The loop of \<^verbatim>\<open>Bind\<close> over a collection \<open>v\<close> of length \<open>n\<close>, from index \<open>i\<close>: each round
  appends the \<open>i\<close>-th element to \<^verbatim>\<open>qa.args\<close> and stores the placeholder of the new length at
  \<^verbatim>\<open>placeholders[i]\<close>.
\<close>

function Bind_loop :: "any \<Rightarrow> nat \<Rightarrow> nat \<Rightarrow> QueryArgs \<Rightarrow> string list \<Rightarrow> QueryArgs \<times> string list" where
  "Bind_loop v n i qa placeholders =
     (if i < n then
        (let val = Index v i;
             qa' = qa\<lparr>args := args qa @ [val]\<rparr>;
             placeholders' = placeholders[i := placeholderFor qa' (int (length (args qa')))]
         in Bind_loop v n (Suc i) qa' placeholders')
      else (qa, placeholders))"
  by pat_completeness auto
termination
  by (relation "measure (\<lambda>(v, n, i, qa, placeholders). n - i)") auto

declare Bind_loop.simps [simp del]

text \<open>
  \<^verbatim>\<open>Bind\<close> has a pointer receiver and appends to \<^verbatim>\<open>qa.args\<close>: the model returns the
  placeholder text together with the updated binder.
\<close>

definition Bind :: "QueryArgs \<Rightarrow> any \<Rightarrow> string \<times> QueryArgs" where
  "Bind qa arg =
     (if \<not> IsValid arg then
        (let qa' = qa\<lparr>args := args qa @ [NilInterface]\<rparr>
         in (placeholderFor qa' (int (length (args qa'))), qa'))
      else if Kind arg = Slice \<or> Kind arg = Array then
        (let n = Len arg in
         if n = 0 then (''(NULL)'', qa)
         else (let (qa', placeholders) = Bind_loop arg n 0 qa (replicate n [])
               in (''('' @ strings_Join placeholders '', '' @ '')'', qa')))
      else
        (let qa' = qa\<lparr>args := args qa @ [arg]\<rparr>
         in (placeholderFor qa' (int (length (args qa'))), qa')))"

section \<open>The binder: \<^verbatim>\<open>Identifier\<close>\<close>

text \<open>
  A Go function either returns or panics. The panic value of \<^verbatim>\<open>Identifier\<close> is the string
  \<^verbatim>\<open>fmt.Sprintf("sqlrender: invalid identifier %q", s)\<close>; it is kept here as
  \<open>InvalidIdentifier s\<close>, the identifier it quotes. \<open>FuncsPanic\<close> is the panic of
  \<^verbatim>\<open>template.Funcs\<close> on a function table that it refuses (its message names one refused
  entry); \<open>OtherPanic\<close> is any other panic value.
\<close>

datatype panic_value = InvalidIdentifier string | FuncsPanic | OtherPanic string

datatype 'a outcome = Return 'a | Panic panic_value

text \<open>
  \<^verbatim>\<open>regexp.MustCompile(`^[A-Za-z0-9._]+$`)\<close>. In Go's syntax \<^verbatim>\<open>^\<close> and \<^verbatim>\<open>$\<close> (without the
  \<^verbatim>\<open>m\<close> flag) match only at the two ends of the text, so the pattern matches exactly the
  non-empty strings all of whose characters are in the class. Strings are byte lists; a
  character that is not ASCII is encoded in bytes above 127, none of which is in the
  class, so checking bytes and checking code points agree.
\<close>

definition identifier_class :: "char \<Rightarrow> bool" where
  "identifier_class c =
     (let n = (of_char c :: nat) in
      (65 \<le> n \<and> n \<le> 90) \<or> (97 \<le> n \<and> n \<le> 122) \<or> (48 \<le> n \<and> n \<le> 57)
      \<or> c = CHR ''.'' \<or> c = CHR ''_'')"

definition identifierPattern_MatchString :: "string \<Rightarrow> bool" where
  "identifierPattern_MatchString s = (s \<noteq> [] \<and> list_all identifier_class s)"

text \<open>\<^verbatim>\<open>strings.Split(s, sep)\<close> for a separator of one byte, as the source calls it.\<close>

fun strings_Split :: "string \<Rightarrow> char \<Rightarrow> string list" where
  "strings_Split [] sep = [[]]"
| "strings_Split (c # cs) sep =
     (if c = sep then [] # strings_Split cs sep
      else (case strings_Split cs sep of
              [] \<Rightarrow> [[c]]
            | p # ps \<Rightarrow> (c # p) # ps))"

definition double_quote :: string where "double_quote = [CHR 0x22]"
definition backtick :: string where "backtick = [CHR 0x60]"

definition quoteIdentifier :: "QueryArgs \<Rightarrow> string \<Rightarrow> string" where
  "quoteIdentifier qa ident =
     (if dialect qa = DialectPostgres \<or> dialect qa = DialectOracle then double_quote @ ident @ double_quote
      else if dialect qa = DialectSQLServer then ''['' @ ident @ '']''
      else backtick @ ident @ backtick)"

text \<open>
  \<^verbatim>\<open>Identifier\<close> has a pointer receiver too, so the model returns the binder as it leaves
  it, beside the text or the panic.
\<close>

definition Identifier :: "QueryArgs \<Rightarrow> any \<Rightarrow> string outcome \<times> QueryArgs" where
  "Identifier qa name =
     (case assert_string name of
        None \<Rightarrow> (Return [], qa)
      | Some s \<Rightarrow>
          if s = [] then (Return [], qa)
          else if \<not> identifierPattern_MatchString s then (Panic (InvalidIdentifier s), qa)
          else (let parts = strings_Split s (CHR ''.'');
                    parts = map (quoteIdentifier qa) parts
                in (Return (strings_Join parts ''.''), qa)))"

section \<open>The renderer\<close>

text \<open>
  \<^verbatim>\<open>type Renderer struct { searchPaths []string; defaultDialect Dialect; customFuncs
  template.FuncMap }\<close>. A \<^verbatim>\<open>template.FuncMap\<close> is a \<^verbatim>\<open>map[string]any\<close>; \<open>'f\<close> is the type of
  the functions stored in it. A nil map and an empty one are both the empty map. The
  configuration methods change the renderer and return it.
\<close>

record 'f Renderer =
  searchPaths :: "string list"
  defaultDialect :: Dialect
  customFuncs :: "string \<rightharpoonup> 'f"

definition NewRenderer :: "Dialect \<Rightarrow> 'f Renderer" where
  "NewRenderer d = \<lparr>searchPaths = [], defaultDialect = d, customFuncs = Map.empty\<rparr>"

definition SetDefaultDialect :: "'f Renderer \<Rightarrow> Dialect \<Rightarrow> 'f Renderer" where
  "SetDefaultDialect r d = r\<lparr>defaultDialect := d\<rparr>"

definition AddSearchPath :: "'f Renderer \<Rightarrow> string \<Rightarrow> 'f Renderer" where
  "AddSearchPath r path = r\<lparr>searchPaths := searchPaths r @ [path]\<rparr>"

definition SetSearchPaths :: "'f Renderer \<Rightarrow> string list \<Rightarrow> 'f Renderer" where
  "SetSearchPaths r paths = r\<lparr>searchPaths := paths\<rparr>"

definition AddFunc :: "'f Renderer \<Rightarrow> string \<Rightarrow> 'f \<Rightarrow> 'f Renderer" where
  "AddFunc r name fn = r\<lparr>customFuncs := (customFuncs r)(name \<mapsto> fn)\<rparr>"

definition AddFuncs :: "'f Renderer \<Rightarrow> (string \<rightharpoonup> 'f) \<Rightarrow> 'f Renderer" where
  "AddFuncs r funcs = r\<lparr>customFuncs := customFuncs r ++ funcs\<rparr>"

text \<open>
  An entry of the function table of one render: the method values \<^verbatim>\<open>qa.Bind\<close> and
  \<^verbatim>\<open>qa.Identifier\<close> of the binder that the render creates, or a custom function.
\<close>

datatype 'f template_func = Bind_method | Identifier_method | Custom 'f

text \<open>
  The table that \<^verbatim>\<open>FromStringWithDialect\<close> builds: the literal with \<^verbatim>\<open>"bind"\<close> and
  \<^verbatim>\<open>"identifier"\<close> first, then \<^verbatim>\<open>funcMap[name] = fn\<close> for every entry of
  \<^verbatim>\<open>r.customFuncs\<close>. The keys of a map are distinct, so the order of the \<^verbatim>\<open>range\<close> loop does
  not matter and the loop is the override \<open>++\<close> of the first table by the custom one.
\<close>

definition funcMap :: "'f Renderer \<Rightarrow> (string \<rightharpoonup> 'f template_func)" where
  "funcMap r =
     [''bind'' \<mapsto> Bind_method, ''identifier'' \<mapsto> Identifier_method]
       ++ (map_option Custom \<circ> customFuncs r)"

text \<open>
  Go's \<^verbatim>\<open>error\<close> values that a render can return. The last two are built by this package:
  \<^verbatim>\<open>fmt.Errorf("sqlrender: template %q not found in search paths: %v", name, r.searchPaths)\<close>
  and \<^verbatim>\<open>fmt.Errorf("sqlrender: failed to read %q: %w", path, err)\<close>, kept as the values they
  format. The others come from package \<^verbatim>\<open>text/template\<close>.
\<close>

datatype call_failure = Returned_error string | Recovered_panic panic_value | Wrong_arguments

datatype error =
    TemplateSyntax string
  | FunctionNotDefined string
  | ErrorCalling string call_failure
  | TemplateNotFound string "string list"
  | FailedToRead string string

text \<open>
  Package \<^verbatim>\<open>text/template\<close> belongs to Go's standard library, not to this repository: the
  renderer is modelled over any engine, given by its two entry points.
  \<open>Parse fm s\<close> is \<^verbatim>\<open>template.New("sql").Funcs(fm).Parse(s)\<close>; \<open>Execute t data qa\<close> is
  \<^verbatim>\<open>t.Execute(&buf, data)\<close>, started with the binder \<open>qa\<close> behind the two method values and
  yielding the buffer, the binder as execution leaves it, and the error if any. Either
  call may panic.
\<close>

record ('f, 't) Engine =
  Parse :: "(string \<rightharpoonup> 'f template_func) \<Rightarrow> string \<Rightarrow> (error + 't) outcome"
  Execute :: "'t \<Rightarrow> (string \<rightharpoonup> any) \<Rightarrow> QueryArgs \<Rightarrow> (string \<times> QueryArgs \<times> error option) outcome"

text \<open>
  The result is Go's triple \<^verbatim>\<open>(string, []any, error)\<close>; \<^verbatim>\<open>nil\<close> data is \<open>None\<close>. The function
  has no \<^verbatim>\<open>recover\<close>: a panic of the engine leaves it as a panic.
\<close>

definition FromStringWithDialect ::
  "('f, 't) Engine \<Rightarrow> 'f Renderer \<Rightarrow> string \<Rightarrow> (string \<rightharpoonup> any) option \<Rightarrow> Dialect
     \<Rightarrow> (string \<times> any list \<times> error option) outcome" where
  "FromStringWithDialect eng r s data d =
     (let data = (case data of None \<Rightarrow> Map.empty | Some m \<Rightarrow> m);
          qa = NewQueryArgs d
      in case Parse eng (funcMap r) s of
           Panic p \<Rightarrow> Panic p
         | Return (Inl err) \<Rightarrow> Return ([], [], Some err)
         | Return (Inr tmpl) \<Rightarrow>
             (case Execute eng tmpl data qa of
                Panic p \<Rightarrow> Panic p
              | Return (buf, qa', Some err) \<Rightarrow> Return ([], [], Some err)
              | Return (buf, qa', None) \<Rightarrow> Return (buf, args qa', None)))"

definition FromString ::
  "('f, 't) Engine \<Rightarrow> 'f Renderer \<Rightarrow> string \<Rightarrow> (string \<rightharpoonup> any) option
     \<Rightarrow> (string \<times> any list \<times> error option) outcome" where
  "FromString eng r s data = FromStringWithDialect eng r s data (defaultDialect r)"

section \<open>Template files\<close>

text \<open>
  What the renderer asks of the platform: \<open>os_Stat p\<close> holds when \<^verbatim>\<open>os.Stat(p)\<close> returns no
  error, \<open>os_ReadFile p\<close> is the content of the file or the cause of the failure, and
  \<open>filepath_Join dir name\<close> is \<^verbatim>\<open>filepath.Join(dir, name)\<close>, which depends on the
  platform's separator.
\<close>

record FileSystem =
  os_Stat :: "string \<Rightarrow> bool"
  os_ReadFile :: "string \<Rightarrow> string + string"
  filepath_Join :: "string \<Rightarrow> string \<Rightarrow> string"

text \<open>The loop of \<^verbatim>\<open>findTemplateFile\<close> over the search paths that are left.\<close>

fun findTemplateFile_loop :: "FileSystem \<Rightarrow> string \<Rightarrow> string list \<Rightarrow> string option" where
  "findTemplateFile_loop fs name [] = None"
| "findTemplateFile_loop fs name (dir # dirs) =
     (let full = filepath_Join fs dir name
      in if os_Stat fs full then Some full else findTemplateFile_loop fs name dirs)"

definition findTemplateFile :: "FileSystem \<Rightarrow> 'f Renderer \<Rightarrow> string \<Rightarrow> error + string" where
  "findTemplateFile fs r name =
     (if os_Stat fs name then Inr name
      else (case findTemplateFile_loop fs name (searchPaths r) of
              Some full \<Rightarrow> Inr full
            | None \<Rightarrow> Inl (TemplateNotFound name (searchPaths r))))"

definition FromTemplateWithDialect ::
  "('f, 't) Engine \<Rightarrow> FileSystem \<Rightarrow> 'f Renderer \<Rightarrow> string \<Rightarrow> (string \<rightharpoonup> any) option \<Rightarrow> Dialect
     \<Rightarrow> (string \<times> any list \<times> error option) outcome" where
  "FromTemplateWithDialect eng fs r name data d =
     (case findTemplateFile fs r name of
        Inl err \<Rightarrow> Return ([], [], Some err)
      | Inr path \<Rightarrow>
          (case os_ReadFile fs path of
             Inl cause \<Rightarrow> Return ([], [], Some (FailedToRead path cause))
           | Inr content \<Rightarrow> FromStringWithDialect eng r content data d))"

definition FromTemplate ::
  "('f, 't) Engine \<Rightarrow> FileSystem \<Rightarrow> 'f Renderer \<Rightarrow> string \<Rightarrow> (string \<rightharpoonup> any) option
     \<Rightarrow> (string \<times> any list \<times> error option) outcome" where
  "FromTemplate eng fs r name data = FromTemplateWithDialect eng fs r name data (defaultDialect r)"

section \<open>A fragment of \<^verbatim>\<open>text/template\<close>\<close>

text \<open>
  The examples below run the renderer on a fragment of \<^verbatim>\<open>text/template\<close>: a template is a
  sequence of literal text and of actions \<^verbatim>\<open>{{ name arg ... }}\<close> that call a function on the
  values of its arguments and print its result. What the fragment leaves open is a
  parameter of the model:
  \<^item> the parser of the template syntax, which is told the names of the defined functions,
    since \<^verbatim>\<open>Parse\<close> rejects a call of a function that is not defined;
  \<^item> the predefined functions of \<^verbatim>\<open>text/template\<close> (\<^verbatim>\<open>print\<close>, \<^verbatim>\<open>len\<close>, ...), by name; an
    entry of the function table of the same name comes first;
  \<^item> which names with characters outside ASCII are identifiers (Unicode's letters and
    digits).

  A custom function of the fragment has a fixed number of parameters of type \<^verbatim>\<open>any\<close> and
  the results \<^verbatim>\<open>(string, error)\<close>: it is given by that number and by what it does on the
  arguments, returning a text (\<open>Inr\<close>) or an error (\<open>Inl\<close>), or panicking.
\<close>

type_synonym custom_func = "nat \<times> (any list \<Rightarrow> (string + string) outcome)"

type_synonym func_table = "string \<rightharpoonup> custom_func template_func"

type_synonym predefined_funcs = "string \<Rightarrow> (any list \<Rightarrow> call_failure + string) option"

datatype node = TextNode string | ActionNode string "any list"

text \<open>
  \<^verbatim>\<open>template.Funcs\<close> panics when a name of the table is not an identifier: \<^verbatim>\<open>goodName\<close>
  wants a non-empty name of letters, digits and underscores that does not start with a
  digit. (It also panics on a value that is not a function with one result, or two of
  which the second is an \<^verbatim>\<open>error\<close>; every function of the fragment is one.)
\<close>

definition ascii_letter :: "char \<Rightarrow> bool" where
  "ascii_letter c =
     (let n = (of_char c :: nat) in (65 \<le> n \<and> n \<le> 90) \<or> (97 \<le> n \<and> n \<le> 122))"

definition ascii_digit :: "char \<Rightarrow> bool" where
  "ascii_digit c = (let n = (of_char c :: nat) in 48 \<le> n \<and> n \<le> 57)"

definition goodName :: "(string \<Rightarrow> bool) \<Rightarrow> string \<Rightarrow> bool" where
  "goodName beyond_ascii name =
     (if list_all (\<lambda>c. (of_char c :: nat) < 128) name then
        (case name of
           [] \<Rightarrow> False
         | c # cs \<Rightarrow>
             (c = CHR ''_'' \<or> ascii_letter c)
             \<and> list_all (\<lambda>x. x = CHR ''_'' \<or> ascii_letter x \<or> ascii_digit x) cs)
      else beyond_ascii name)"

text \<open>
  A function is called the way \<^verbatim>\<open>text/template\<close> calls it: a call with the wrong number of
  arguments is an error of the execution, and the call itself goes through \<^verbatim>\<open>safeCall\<close>,
  where a panic of the called function is recovered and becomes the error of the call,
  as an error that the function returns does. \<^verbatim>\<open>Execute\<close> stops at the first error and
  returns it.
\<close>

fun safeCall ::
  "custom_func template_func \<Rightarrow> any list \<Rightarrow> QueryArgs \<Rightarrow> (call_failure + string) \<times> QueryArgs" where
  "safeCall Bind_method argv qa =
     (case argv of
        [arg] \<Rightarrow> (let (p, qa') = Bind qa arg in (Inr p, qa'))
      | _ \<Rightarrow> (Inl Wrong_arguments, qa))"
| "safeCall Identifier_method argv qa =
     (case argv of
        [name] \<Rightarrow>
          (case Identifier qa name of
             (Return t, qa') \<Rightarrow> (Inr t, qa')
           | (Panic p, qa') \<Rightarrow> (Inl (Recovered_panic p), qa'))
      | _ \<Rightarrow> (Inl Wrong_arguments, qa))"
| "safeCall (Custom (n, f)) argv qa =
     (if length argv \<noteq> n then (Inl Wrong_arguments, qa)
      else (case f argv of
              Return (Inr t) \<Rightarrow> (Inr t, qa)
            | Return (Inl e) \<Rightarrow> (Inl (Returned_error e), qa)
            | Panic p \<Rightarrow> (Inl (Recovered_panic p), qa)))"

fun exec_nodes ::
  "predefined_funcs \<Rightarrow> func_table \<Rightarrow> node list \<Rightarrow> string \<Rightarrow> QueryArgs
     \<Rightarrow> string \<times> QueryArgs \<times> error option" where
  "exec_nodes predefined fm [] buf qa = (buf, qa, None)"
| "exec_nodes predefined fm (TextNode t # ns) buf qa = exec_nodes predefined fm ns (buf @ t) qa"
| "exec_nodes predefined fm (ActionNode name argv # ns) buf qa =
     (case fm name of
        Some f \<Rightarrow>
          (case safeCall f argv qa of
             (Inl failure, qa') \<Rightarrow> (buf, qa', Some (ErrorCalling name failure))
           | (Inr t, qa') \<Rightarrow> exec_nodes predefined fm ns (buf @ t) qa')
      | None \<Rightarrow>
          (case predefined name of
             Some g \<Rightarrow>
               (case g argv of
                  Inl failure \<Rightarrow> (buf, qa, Some (ErrorCalling name failure))
                | Inr t \<Rightarrow> exec_nodes predefined fm ns (buf @ t) qa)
           | None \<Rightarrow> (buf, qa, Some (FunctionNotDefined name))))"

definition text_template ::
  "(string \<Rightarrow> bool) \<Rightarrow> predefined_funcs \<Rightarrow> ((string \<Rightarrow> bool) \<Rightarrow> string \<Rightarrow> error + node list)
     \<Rightarrow> (custom_func, func_table \<times> node list) Engine" where
  "text_template beyond_ascii predefined parser =
     \<lparr>Parse = (\<lambda>fm s.
        if \<exists>name. fm name \<noteq> None \<and> \<not> goodName beyond_ascii name then Panic FuncsPanic
        else Return (case parser (\<lambda>name. \<not> (fm name = None \<and> predefined name = None)) s of
                       Inl err \<Rightarrow> Inl err
                     | Inr ns \<Rightarrow> Inr (fm, ns))),
      Execute = (\<lambda>(fm, ns) data qa. Return (exec_nodes predefined fm ns [] qa))\<rparr>"

section \<open>Sequences of calls, and numerals read back\<close>

text \<open>
  Calling \<^verbatim>\<open>Bind\<close> on the values of a list, one after the other: the placeholders
  returned, in call order, and the binder at the end.
\<close>

fun Bind_all :: "QueryArgs \<Rightarrow> any list \<Rightarrow> string list \<times> QueryArgs" where
  "Bind_all qa [] = ([], qa)"
| "Bind_all qa (v # vs) =
     (let (p, qa') = Bind qa v;
          (ps, qa'') = Bind_all qa' vs
      in (p # ps, qa''))"

text \<open>Reading a decimal numeral back, to check \<open>fmt_d\<close> against.\<close>

definition digit_value :: "char \<Rightarrow> nat" where
  "digit_value c = of_char c - 48"

definition parse_decimal :: "string \<Rightarrow> nat" where
  "parse_decimal s = foldl (\<lambda>acc c. 10 * acc + digit_value c) 0 s"

section \<open>Examples\<close>

text \<open>
  Inputs of the examples: a parser that yields a given tree for the source it is handed,
  unless the tree calls a function that is not defined; the function
  \<^verbatim>\<open>func() (string, error) { return "", fmt.Errorf("boom") }\<close> of the package's tests; a
  template source that calls \<^verbatim>\<open>identifier\<close> on an invalid name; and a file system with
  three files, whose directory and file names need no cleaning, on a platform that joins
  paths with a slash.
\<close>

fun undefined_function :: "(string \<Rightarrow> bool) \<Rightarrow> node list \<Rightarrow> string option" where
  "undefined_function defined [] = None"
| "undefined_function defined (TextNode t # ns) = undefined_function defined ns"
| "undefined_function defined (ActionNode name argv # ns) =
     (if defined name then undefined_function defined ns else Some name)"

definition parsed :: "node list \<Rightarrow> (string \<Rightarrow> bool) \<Rightarrow> string \<Rightarrow> error + node list" where
  "parsed ns defined s =
     (case undefined_function defined ns of
        Some name \<Rightarrow> Inl (FunctionNotDefined name)
      | None \<Rightarrow> Inr ns)"

definition fail_func :: custom_func where
  "fail_func = (0, \<lambda>argv. Return (Inl ''boom''))"

definition invalid_identifier_source :: string where
  "invalid_identifier_source =
     ''{{ identifier '' @ double_quote @ ''users;DROP'' @ double_quote @ '' }}''"

definition example_fs :: FileSystem where
  "example_fs =
     \<lparr>os_Stat = (\<lambda>p. p = ''direct.sql'' \<or> p = ''sql/query.sql'' \<or> p = ''more/query.sql''),
      os_ReadFile = (\<lambda>p. Inr ''SELECT 1''),
      filepath_Join = (\<lambda>dir name. dir @ ''/'' @ name)\<rparr>"

section \<open>Properties\<close>

lemmas Dialect_defs =
  DialectPostgres_def DialectMySQL_def DialectSQLite_def
  DialectSQLServer_def DialectSnowflake_def DialectOracle_def

subsection \<open>Decimal numerals\<close>

lemma digit_value_digit: "m < 10 \<Longrightarrow> digit_value (digit m) = m"
proof -
  assume "m < 10"
  then have "m \<in> {0, 1, 2, 3, 4, 5, 6, 7, 8, 9}" by auto
  then show ?thesis by (auto simp: digit_def digit_value_def)
qed

lemma parse_decimal_decimal: "parse_decimal (decimal n) = n"
proof (induction n rule: decimal.induct)
  case (1 n)
  show ?case
  proof (cases "n < 10")
    case True
    then show ?thesis
      by (subst decimal.simps) (simp add: parse_decimal_def digit_value_digit)
  next
    case False
    with 1 have "parse_decimal (decimal (n div 10)) = n div 10" by simp
    then show ?thesis using False
      by (subst decimal.simps) (simp add: parse_decimal_def digit_value_digit)
  qed
qed

lemma parse_decimal_fmt_d: "parse_decimal (fmt_d (int k)) = k"
  by (simp add: fmt_d_def parse_decimal_decimal)

lemma fmt_d_small:
  "fmt_d 1 = ''1''" "fmt_d 2 = ''2''" "fmt_d 3 = ''3''" "fmt_d 4 = ''4''" "fmt_d 5 = ''5''"
  by code_simp+

subsection \<open>The loop of \<^verbatim>\<open>Bind\<close>\<close>

lemma placeholderFor_args [simp]: "placeholderFor (qa\<lparr>args := xs\<rparr>) n = placeholderFor qa n"
  by (simp add: placeholderFor_def)

lemma Bind_loop_eq:
  "i \<le> n \<Longrightarrow> n = Len v \<Longrightarrow> length ps = n \<Longrightarrow>
   Bind_loop v n i qa ps =
     (qa\<lparr>args := args qa @ drop i (elements v)\<rparr>,
      take i ps @ map (\<lambda>k. placeholderFor qa (int (length (args qa) + Suc k - i))) [i..<n])"
proof (induction v n i qa ps rule: Bind_loop.induct)
  case (1 v n i qa ps)
  show ?case
  proof (cases "i < n")
    case False
    with 1 show ?thesis by (subst Bind_loop.simps) (simp add: Len_def)
  next
    case True
    let ?qa = "qa\<lparr>args := args qa @ [Index v i]\<rparr>"
    let ?ps = "ps[i := placeholderFor ?qa (int (length (args ?qa)))]"
    have ih: "Bind_loop v n (Suc i) ?qa ?ps =
       (?qa\<lparr>args := args ?qa @ drop (Suc i) (elements v)\<rparr>,
        take (Suc i) ?ps @ map (\<lambda>k. placeholderFor ?qa (int (length (args ?qa) + Suc k - Suc i))) [Suc i..<n])"
      using 1 True by (intro "1.IH" [OF True refl refl refl]) auto
    have a: "[Index v i] @ drop (Suc i) (elements v) = drop i (elements v)"
      using True 1 by (simp add: Index_def Len_def Cons_nth_drop_Suc)
    have b: "take (Suc i) ?ps = take i ps @ [placeholderFor qa (int (Suc (length (args qa))))]"
      using True 1 by (simp add: take_Suc_conv_app_nth)
    have c: "[i..<n] = i # [Suc i..<n]"
      using True by (simp add: upt_conv_Cons)
    have step: "Bind_loop v n i qa ps = Bind_loop v n (Suc i) ?qa ?ps"
      using True by (subst Bind_loop.simps) (simp add: Let_def)
    show ?thesis
      unfolding step ih b c using a by simp
  qed
qed

lemma placeholderFor_Postgres:
  "dialect qa = DialectPostgres \<Longrightarrow> placeholderFor qa n = ''$'' @ fmt_d n"
  by (simp add: placeholderFor_def)

lemma placeholderFor_SQLServer:
  "dialect qa = DialectSQLServer \<Longrightarrow> placeholderFor qa n = ''@p'' @ fmt_d n"
  by (simp add: placeholderFor_def Dialect_defs)

lemma placeholderFor_Oracle:
  "dialect qa = DialectOracle \<Longrightarrow> placeholderFor qa n = '':'' @ fmt_d n"
  by (simp add: placeholderFor_def Dialect_defs)

lemma placeholderFor_default:
  "dialect qa \<noteq> DialectPostgres \<Longrightarrow> dialect qa \<noteq> DialectSQLServer \<Longrightarrow>
   dialect qa \<noteq> DialectOracle \<Longrightarrow> placeholderFor qa n = ''?''"
  by (simp add: placeholderFor_def)

lemma map_from_one: "map g [1..<Suc n] = map (\<lambda>k. g (Suc k)) [0..<n]"
proof -
  have "[1..<Suc n] = map Suc [0..<n]" by (simp only: map_Suc_upt One_nat_def)
  then show ?thesis by (simp only: map_map comp_def)
qed

lemma Bind_collection_eq:
  assumes "Kind v = Slice \<or> Kind v = Array"
  shows "Bind qa v =
     (if Len v = 0 then (''(NULL)'', qa)
      else (''('' @ strings_Join (map (\<lambda>k. placeholderFor qa (int (length (args qa) + k))) [1..<Suc (Len v)]) '', '' @ '')'',
            qa\<lparr>args := args qa @ elements v\<rparr>))"
proof -
  have valid: "IsValid v" using assms by (cases v) auto
  have loop: "Bind_loop v (Len v) 0 qa (replicate (Len v) []) =
      (qa\<lparr>args := args qa @ elements v\<rparr>,
       map (\<lambda>k. placeholderFor qa (int (length (args qa) + Suc k))) [0..<Len v])"
    using Bind_loop_eq [of 0 "Len v" v "replicate (Len v) []" qa] by simp
  show ?thesis
    unfolding map_from_one using valid assms
    by (simp only: Bind_def Let_def loop split: if_splits prod.splits) simp
qed

lemma Bind_scalar_eq:
  "Kind v \<noteq> Slice \<Longrightarrow> Kind v \<noteq> Array \<Longrightarrow>
   Bind qa v = (placeholderFor qa (int (Suc (length (args qa)))), qa\<lparr>args := args qa @ [v]\<rparr>)"
  by (cases v) (simp_all add: Bind_def Let_def)

lemma Bind_all_scalars:
  "\<forall>v\<in>set vs. Kind v \<noteq> Slice \<and> Kind v \<noteq> Array \<Longrightarrow>
   Bind_all qa vs =
     (map (\<lambda>k. placeholderFor qa (int (length (args qa) + k))) [1..<Suc (length vs)],
      qa\<lparr>args := args qa @ vs\<rparr>)"
proof (induction vs arbitrary: qa)
  case Nil
  show ?case by simp
next
  case (Cons v vs)
  let ?qa = "qa\<lparr>args := args qa @ [v]\<rparr>"
  have head: "Bind qa v = (placeholderFor qa (int (Suc (length (args qa)))), ?qa)"
    using Cons.prems by (simp add: Bind_scalar_eq)
  have rest: "Bind_all ?qa vs =
      (map (\<lambda>k. placeholderFor qa (int (Suc (length (args qa)) + k))) [1..<Suc (length vs)],
       qa\<lparr>args := args qa @ v # vs\<rparr>)"
    using Cons.IH [of ?qa] Cons.prems by simp
  have idx: "map (\<lambda>k. placeholderFor qa (int (length (args qa) + k))) [1..<Suc (length (v # vs))] =
      placeholderFor qa (int (Suc (length (args qa)))) #
      map (\<lambda>k. placeholderFor qa (int (Suc (length (args qa)) + k))) [1..<Suc (length vs)]"
    unfolding map_from_one by (simp add: upt_conv_Cons map_Suc_upt [symmetric] del: upt_Suc)
  show ?case
    unfolding idx by (simp only: Bind_all.simps head rest Let_def prod.case)
qed

subsection \<open>Sequential binding\<close>

text \<open>
  C1. Under a positional dialect (Postgres, SQL Server, Oracle), binding \<open>k\<close> scalar values
  (valid, neither slice nor array) one after the other on a fresh binder returns the
  placeholders with the numbers \<open>1..k\<close> in call order, \<^verbatim>\<open>$1..$k\<close>, \<^verbatim>\<open>@p1..@pk\<close> or \<^verbatim>\<open>:1..:k\<close>,
  and the binder ends with exactly those values as its arguments, in the same order.
  By \<open>parse_decimal_fmt_d\<close> the text \<open>fmt_d (int k)\<close> is the decimal numeral of \<open>k\<close>.
\<close>

theorem Bind_sequential_positional:
  assumes "\<forall>v\<in>set vs. IsValid v \<and> Kind v \<noteq> Slice \<and> Kind v \<noteq> Array"
  shows "snd (Bind_all (NewQueryArgs d) vs) = \<lparr>args = vs, dialect = d\<rparr>
     \<and> (d = DialectPostgres \<longrightarrow>
          fst (Bind_all (NewQueryArgs d) vs) = map (\<lambda>k. ''$'' @ fmt_d (int k)) [1..<Suc (length vs)])
     \<and> (d = DialectSQLServer \<longrightarrow>
          fst (Bind_all (NewQueryArgs d) vs) = map (\<lambda>k. ''@p'' @ fmt_d (int k)) [1..<Suc (length vs)])
     \<and> (d = DialectOracle \<longrightarrow>
          fst (Bind_all (NewQueryArgs d) vs) = map (\<lambda>k. '':'' @ fmt_d (int k)) [1..<Suc (length vs)])"
proof -
  have "\<forall>v\<in>set vs. Kind v \<noteq> Slice \<and> Kind v \<noteq> Array" using assms by simp
  from Bind_all_scalars [OF this, of "NewQueryArgs d"]
  have eq: "Bind_all (NewQueryArgs d) vs =
      (map (\<lambda>k. placeholderFor (NewQueryArgs d) (int k)) [1..<Suc (length vs)], \<lparr>args = vs, dialect = d\<rparr>)"
    by (simp add: NewQueryArgs_def del: upt_Suc)
  have d: "\<And>x. dialect (NewQueryArgs x) = x" by (simp add: NewQueryArgs_def)
  show ?thesis
    unfolding eq fst_conv snd_conv
    by (simp add: placeholderFor_Postgres placeholderFor_SQLServer placeholderFor_Oracle d del: upt_Suc)
qed

theorem Bind_sequential_positional_witness:
  "Bind_all (NewQueryArgs DialectPostgres) [IntVal 1, IntVal 2, IntVal 3]
       = ([''$1'', ''$2'', ''$3''], \<lparr>args = [IntVal 1, IntVal 2, IntVal 3], dialect = DialectPostgres\<rparr>)
   \<and> Bind_all (NewQueryArgs DialectSQLServer) [IntVal 1, IntVal 2, IntVal 3]
       = ([''@p1'', ''@p2'', ''@p3''], \<lparr>args = [IntVal 1, IntVal 2, IntVal 3], dialect = DialectSQLServer\<rparr>)
   \<and> Bind_all (NewQueryArgs DialectOracle) [IntVal 1, IntVal 2, IntVal 3]
       = (['':1'', '':2'', '':3''], \<lparr>args = [IntVal 1, IntVal 2, IntVal 3], dialect = DialectOracle\<rparr>)"
proof -
  have h: "\<forall>v\<in>set [IntVal 1, IntVal 2, IntVal 3]. IsValid v \<and> Kind v \<noteq> Slice \<and> Kind v \<noteq> Array"
    by simp
  show ?thesis
    using Bind_sequential_positional [OF h, of DialectPostgres]
      Bind_sequential_positional [OF h, of DialectSQLServer]
      Bind_sequential_positional [OF h, of DialectOracle]
    by (simp add: prod_eq_iff fmt_d_small)
qed


subsection \<open>Collections\<close>

text \<open>
  C2. For a slice or an array passed to \<^verbatim>\<open>Bind\<close>: when its length is 0 the result is exactly
  the text \<^verbatim>\<open>(NULL)\<close> and the binder is unchanged; when its length is \<open>n > 0\<close> every element
  is appended as a bound value of its own, in the order of the collection, and the
  result is the parenthesised list, joined by a comma and a space, of the \<open>n\<close>
  placeholders of the positions that follow the running count, in ascending order.
\<close>

theorem Bind_slice_or_array:
  assumes "Kind v = Slice \<or> Kind v = Array"
  shows "(Len v = 0 \<longrightarrow> Bind qa v = (''(NULL)'', qa))
     \<and> (0 < Len v \<longrightarrow>
          Bind qa v =
            (''('' @ strings_Join
                      (map (\<lambda>k. placeholderFor qa (int (length (args qa) + k))) [1..<Suc (Len v)])
                      '', '' @ '')'',
             qa\<lparr>args := args qa @ map (Index v) [0..<Len v]\<rparr>))"
proof -
  have "map (Index v) [0..<Len v] = elements v"
    unfolding Len_def by (rule nth_equalityI) (simp_all add: Index_def)
  then show ?thesis
    using Bind_collection_eq [OF assms, of qa] by (simp del: upt_Suc)
qed

theorem Bind_slice_or_array_witness:
  "Bind (NewQueryArgs DialectPostgres) NilSlice = (''(NULL)'', NewQueryArgs DialectPostgres)
   \<and> Bind \<lparr>args = [IntVal 4, IntVal 5], dialect = DialectPostgres\<rparr> (ArrayVal [IntVal 6, IntVal 7])
       = (''($3, $4)'', \<lparr>args = [IntVal 4, IntVal 5, IntVal 6, IntVal 7], dialect = DialectPostgres\<rparr>)"
proof -
  have k1: "Kind NilSlice = Slice \<or> Kind NilSlice = Array" by simp
  have k2: "Kind (ArrayVal [IntVal 6, IntVal 7]) = Slice \<or> Kind (ArrayVal [IntVal 6, IntVal 7]) = Array"
    by simp
  show ?thesis
    using Bind_slice_or_array [OF k1, of "NewQueryArgs DialectPostgres"]
      Bind_slice_or_array [OF k2, of "\<lparr>args = [IntVal 4, IntVal 5], dialect = DialectPostgres\<rparr>"]
    by (simp add: Len_def Index_def placeholderFor_Postgres fmt_d_small)
qed

subsection \<open>Snowflake\<close>

text \<open>
  C7. The claim reads: under the Snowflake dialect \<^verbatim>\<open>Bind\<close> returns the positional \<^verbatim>\<open>$n\<close>.
  The first binding under Snowflake does not return \<^verbatim>\<open>$1\<close>.
\<close>

theorem Snowflake_not_positional_counterexample:
  "fst (Bind (NewQueryArgs DialectSnowflake) (IntVal 7)) \<noteq> ''$1''"
  by (simp add: Bind_def Let_def NewQueryArgs_def placeholderFor_def Dialect_defs)

text \<open>
  C7, as the code has it: Snowflake falls into the \<^verbatim>\<open>default\<close> branch of
  \<^verbatim>\<open>placeholderFor\<close>, with MySQL and SQLite. Under the Snowflake dialect the placeholder of
  every position is the marker \<^verbatim>\<open>?\<close>: \<^verbatim>\<open>Bind\<close> returns \<^verbatim>\<open>?\<close> for a value that is not a
  collection, and the parenthesised list of as many \<^verbatim>\<open>?\<close> as elements for a non-empty one.
\<close>

theorem Snowflake_placeholder:
  assumes "dialect qa = DialectSnowflake"
  shows "placeholderFor qa n = ''?''
     \<and> (Kind v \<noteq> Slice \<and> Kind v \<noteq> Array \<longrightarrow> fst (Bind qa v) = ''?'')
     \<and> ((Kind v = Slice \<or> Kind v = Array) \<and> 0 < Len v \<longrightarrow>
          fst (Bind qa v) = ''('' @ strings_Join (replicate (Len v) ''?'') '', '' @ '')'')"
proof -
  have ph: "\<And>m. placeholderFor qa m = ''?''"
    using assms by (simp add: placeholderFor_def Dialect_defs)
  have "map (\<lambda>k. ''?'') [1..<Suc (Len v)] = replicate (Len v) ''?''"
    by (simp add: map_replicate_const del: upt_Suc)
  then show ?thesis
    using ph by (auto simp: Bind_scalar_eq Bind_collection_eq simp del: upt_Suc)
qed

theorem Snowflake_placeholder_witness:
  "placeholderFor (NewQueryArgs DialectSnowflake) 3 = ''?''
   \<and> fst (Bind (NewQueryArgs DialectSnowflake) (IntVal 7)) = ''?''
   \<and> fst (Bind (NewQueryArgs DialectSnowflake) (SliceVal [IntVal 1, IntVal 2])) = ''(?, ?)''"
proof -
  have d: "dialect (NewQueryArgs DialectSnowflake) = DialectSnowflake"
    by (simp add: NewQueryArgs_def)
  show ?thesis
    using Snowflake_placeholder [OF d, of 3 "IntVal 7"]
      Snowflake_placeholder [OF d, of 3 "SliceVal [IntVal 1, IntVal 2]"]
    by (simp add: Len_def)
qed

subsection \<open>Nil values\<close>

text \<open>
  C10. \<^verbatim>\<open>Bind\<close> takes its nil branch for the untyped nil interface value only: it appends one
  nil entry and returns one placeholder. Every other value is valid for \<^verbatim>\<open>reflect\<close>; a nil
  pointer of a pointer type is bound as itself. A nil slice has kind \<^verbatim>\<open>Slice\<close> and length 0,
  so it is a collection: \<^verbatim>\<open>Bind\<close> returns \<^verbatim>\<open>(NULL)\<close> and appends nothing, as for an empty
  slice or array.
\<close>

theorem Bind_nil_values:
  "Bind qa NilInterface =
     (placeholderFor qa (int (Suc (length (args qa)))), qa\<lparr>args := args qa @ [NilInterface]\<rparr>)
   \<and> IsValid v = (v \<noteq> NilInterface)
   \<and> Bind qa NilPointer =
     (placeholderFor qa (int (Suc (length (args qa)))), qa\<lparr>args := args qa @ [NilPointer]\<rparr>)
   \<and> Kind NilSlice = Slice \<and> Len NilSlice = 0
   \<and> Bind qa NilSlice = (''(NULL)'', qa)
   \<and> Bind qa (SliceVal []) = (''(NULL)'', qa)
   \<and> Bind qa (ArrayVal []) = (''(NULL)'', qa)"
proof -
  have "IsValid v = (v \<noteq> NilInterface)" by (cases v) simp_all
  then show ?thesis
    by (simp add: Bind_scalar_eq Bind_collection_eq Len_def)
qed


subsection \<open>Splitting and joining\<close>

lemma strings_Split_not_Nil: "strings_Split s sep \<noteq> []"
  by (induction s) (auto split: list.splits)

lemma strings_Join_Cons: "strings_Join ((c # p) # ps) sep = c # strings_Join (p # ps) sep"
  by (cases ps) simp_all

lemma strings_Join_Split: "strings_Join (strings_Split s sep) [sep] = s"
  by (induction s) (auto simp: strings_Join_Cons strings_Split_not_Nil split: list.splits)

lemma strings_Split_segments: "p \<in> set (strings_Split s sep) \<Longrightarrow> sep \<notin> set p"
  by (induction s arbitrary: p) (auto split: list.splits if_splits)

subsection \<open>Identifiers\<close>

lemma identifierPattern_MatchString_iff:
  "identifierPattern_MatchString s \<longleftrightarrow> s \<noteq> [] \<and> (\<forall>c\<in>set s. identifier_class c)"
  by (simp add: identifierPattern_MatchString_def list_all_iff)

text \<open>
  C5. For a non-empty name all of whose characters are letters \<^verbatim>\<open>A-Z a-z\<close>, digits,
  underscore or period (the names the anchored pattern matches), \<^verbatim>\<open>Identifier\<close> splits
  the name at the periods, quotes every segment for the dialect and joins the segments
  with periods again: double quotes under Postgres and Oracle, square brackets under
  SQL Server, backticks under MySQL, SQLite and Snowflake. By \<open>strings_Join_Split\<close> and
  \<open>strings_Split_segments\<close> the segments are the parts of the name between its periods.
\<close>

theorem Identifier_quotes_segments:
  assumes "s \<noteq> []" and "\<forall>c\<in>set s. identifier_class c"
  shows "Identifier qa (StringVal s) =
      (Return (strings_Join (map (quoteIdentifier qa) (strings_Split s (CHR ''.''))) ''.''), qa)
     \<and> (dialect qa = DialectPostgres \<or> dialect qa = DialectOracle \<longrightarrow>
          quoteIdentifier qa seg = double_quote @ seg @ double_quote)
     \<and> (dialect qa = DialectSQLServer \<longrightarrow> quoteIdentifier qa seg = ''['' @ seg @ '']'')
     \<and> (dialect qa = DialectMySQL \<or> dialect qa = DialectSQLite \<or> dialect qa = DialectSnowflake \<longrightarrow>
          quoteIdentifier qa seg = backtick @ seg @ backtick)"
proof -
  have "identifierPattern_MatchString s"
    using assms by (simp add: identifierPattern_MatchString_iff)
  then have "Identifier qa (StringVal s) =
      (Return (strings_Join (map (quoteIdentifier qa) (strings_Split s (CHR ''.''))) ''.''), qa)"
    using assms(1) by (simp add: Identifier_def Let_def)
  moreover have "dialect qa = DialectPostgres \<or> dialect qa = DialectOracle \<longrightarrow>
      quoteIdentifier qa seg = double_quote @ seg @ double_quote"
    by (simp add: quoteIdentifier_def)
  moreover have "dialect qa = DialectSQLServer \<longrightarrow> quoteIdentifier qa seg = ''['' @ seg @ '']''"
    by (simp add: quoteIdentifier_def Dialect_defs)
  moreover have "dialect qa = DialectMySQL \<or> dialect qa = DialectSQLite \<or> dialect qa = DialectSnowflake \<longrightarrow>
      quoteIdentifier qa seg = backtick @ seg @ backtick"
    by (auto simp: quoteIdentifier_def Dialect_defs)
  ultimately show ?thesis by blast
qed

lemma public_users_valid: "\<forall>c\<in>set ''public.users''. identifier_class c"
  by (simp add: identifier_class_def)

lemma public_users_split: "strings_Split ''public.users'' (CHR ''.'') = [''public'', ''users'']"
  by simp

theorem Identifier_quotes_segments_witness:
  "Identifier (NewQueryArgs DialectPostgres) (StringVal ''public.users'')
     = (Return (double_quote @ ''public'' @ double_quote @ ''.'' @ double_quote @ ''users'' @ double_quote),
        NewQueryArgs DialectPostgres)
   \<and> Identifier (NewQueryArgs DialectOracle) (StringVal ''public.users'')
     = (Return (double_quote @ ''public'' @ double_quote @ ''.'' @ double_quote @ ''users'' @ double_quote),
        NewQueryArgs DialectOracle)
   \<and> Identifier (NewQueryArgs DialectSQLServer) (StringVal ''public.users'')
     = (Return ''[public].[users]'', NewQueryArgs DialectSQLServer)
   \<and> Identifier (NewQueryArgs DialectMySQL) (StringVal ''public.users'')
     = (Return (backtick @ ''public'' @ backtick @ ''.'' @ backtick @ ''users'' @ backtick),
        NewQueryArgs DialectMySQL)
   \<and> Identifier (NewQueryArgs DialectSQLite) (StringVal ''public.users'')
     = (Return (backtick @ ''public'' @ backtick @ ''.'' @ backtick @ ''users'' @ backtick),
        NewQueryArgs DialectSQLite)
   \<and> Identifier (NewQueryArgs DialectSnowflake) (StringVal ''public.users'')
     = (Return (backtick @ ''public'' @ backtick @ ''.'' @ backtick @ ''users'' @ backtick),
        NewQueryArgs DialectSnowflake)"
proof -
  have ne: "''public.users'' \<noteq> []" by simp
  note inst = Identifier_quotes_segments [OF ne public_users_valid]
  have d: "\<And>x. dialect (NewQueryArgs x) = x" by (simp add: NewQueryArgs_def)
  show ?thesis
    using inst [of "NewQueryArgs DialectPostgres" "''public''"] inst [of "NewQueryArgs DialectPostgres" "''users''"]
      inst [of "NewQueryArgs DialectOracle" "''public''"] inst [of "NewQueryArgs DialectOracle" "''users''"]
      inst [of "NewQueryArgs DialectSQLServer" "''public''"] inst [of "NewQueryArgs DialectSQLServer" "''users''"]
      inst [of "NewQueryArgs DialectMySQL" "''public''"] inst [of "NewQueryArgs DialectMySQL" "''users''"]
      inst [of "NewQueryArgs DialectSQLite" "''public''"] inst [of "NewQueryArgs DialectSQLite" "''users''"]
      inst [of "NewQueryArgs DialectSnowflake" "''public''"] inst [of "NewQueryArgs DialectSnowflake" "''users''"]
    by (simp add: d public_users_split)
qed

text \<open>
  C6. For an input that is not a value of type \<^verbatim>\<open>string\<close>, or is the empty string,
  \<^verbatim>\<open>Identifier\<close> returns the empty string, without a panic, and the binder is as before;
  and on every input \<^verbatim>\<open>Identifier\<close> leaves the binder, its bound arguments included,
  unchanged.
\<close>

theorem Identifier_not_a_name:
  "((\<forall>s. name \<noteq> StringVal s) \<or> name = StringVal [] \<longrightarrow> Identifier qa name = (Return [], qa))
   \<and> snd (Identifier qa name) = qa"
  by (cases name) (simp_all add: Identifier_def Let_def)

theorem Identifier_not_a_name_witness:
  "Identifier \<lparr>args = [IntVal 1], dialect = DialectMySQL\<rparr> (IntVal 123)
     = (Return [], \<lparr>args = [IntVal 1], dialect = DialectMySQL\<rparr>)
   \<and> Identifier \<lparr>args = [IntVal 1], dialect = DialectMySQL\<rparr> (StringVal [])
     = (Return [], \<lparr>args = [IntVal 1], dialect = DialectMySQL\<rparr>)
   \<and> Identifier \<lparr>args = [IntVal 1], dialect = DialectMySQL\<rparr> (NamedStringVal ''users'')
     = (Return [], \<lparr>args = [IntVal 1], dialect = DialectMySQL\<rparr>)
   \<and> Identifier \<lparr>args = [IntVal 1], dialect = DialectMySQL\<rparr> NilInterface
     = (Return [], \<lparr>args = [IntVal 1], dialect = DialectMySQL\<rparr>)"
  using Identifier_not_a_name [of "IntVal 123" "\<lparr>args = [IntVal 1], dialect = DialectMySQL\<rparr>"]
    Identifier_not_a_name [of "StringVal []" "\<lparr>args = [IntVal 1], dialect = DialectMySQL\<rparr>"]
    Identifier_not_a_name [of "NamedStringVal ''users''" "\<lparr>args = [IntVal 1], dialect = DialectMySQL\<rparr>"]
    Identifier_not_a_name [of NilInterface "\<lparr>args = [IntVal 1], dialect = DialectMySQL\<rparr>"]
  by simp


subsection \<open>The function table\<close>

text \<open>
  C3. The claim reads: whatever custom function is registered under \<^verbatim>\<open>bind\<close> or
  \<^verbatim>\<open>identifier\<close>, the function table of a render maps the two names to the methods of the
  binder. With a custom function registered under either name, the table does not.
\<close>

theorem custom_bind_replaces_builtin_counterexample:
  "funcMap (AddFunc (NewRenderer DialectPostgres) ''bind'' fail_func) ''bind'' \<noteq> Some Bind_method
   \<and> funcMap (AddFunc (NewRenderer DialectPostgres) ''identifier'' fail_func) ''identifier'' \<noteq> Some Identifier_method"
  by (simp add: funcMap_def AddFunc_def NewRenderer_def map_add_def)

text \<open>
  C3, as the code has it: the table starts from the two built-in entries and every custom
  function is then stored under its name, so a custom function registered under \<^verbatim>\<open>bind\<close> or
  \<^verbatim>\<open>identifier\<close> replaces the built-in one; the two names map to the methods of the fresh
  binder exactly when no custom function has that name.
\<close>

theorem funcMap_custom_first:
  "funcMap r name =
     (case customFuncs r name of
        Some fn \<Rightarrow> Some (Custom fn)
      | None \<Rightarrow>
          if name = ''bind'' then Some Bind_method
          else if name = ''identifier'' then Some Identifier_method
          else None)
   \<and> funcMap (AddFunc r name fn) name = Some (Custom fn)"
  by (simp add: funcMap_def AddFunc_def map_add_def split: option.splits)

subsection \<open>Failures of a render\<close>

lemma FromStringWithDialect_panic:
  "Parse eng (funcMap r) s = Return (Inr tmpl) \<Longrightarrow>
   Execute eng tmpl (case data of None \<Rightarrow> Map.empty | Some m \<Rightarrow> m) (NewQueryArgs d) = Panic p \<Longrightarrow>
   FromStringWithDialect eng r s data d = Panic p"
  by (simp add: FromStringWithDialect_def)

text \<open>
  C8. When the execution of the template returns an error, whatever text is in the buffer
  and whatever arguments the binder holds by then, the render returns the empty text, no
  argument list and that error.
\<close>

theorem execution_error_returns_nothing:
  assumes "Parse eng (funcMap r) s = Return (Inr tmpl)"
    and "Execute eng tmpl (case data of None \<Rightarrow> Map.empty | Some m \<Rightarrow> m) (NewQueryArgs d)
           = Return (buf, qa', Some err)"
  shows "FromStringWithDialect eng r s data d = Return ([], [], Some err)"
  using assms by (simp add: FromStringWithDialect_def)

lemma funcMap_eq_None:
  "funcMap r name = None \<longleftrightarrow>
     name \<noteq> ''bind'' \<and> name \<noteq> ''identifier'' \<and> customFuncs r name = None"
  by (auto simp: funcMap_def map_add_def split: option.splits)

lemma goodName_builtin: "goodName u ''bind''" "goodName u ''identifier''" "goodName u ''fail''"
  by (simp_all add: goodName_def ascii_letter_def ascii_digit_def)

lemma Parse_text_template:
  assumes "\<And>name. customFuncs r name \<noteq> None \<Longrightarrow> goodName u name"
    and "undefined_function (\<lambda>name. \<not> (funcMap r name = None \<and> b name = None)) ns = None"
  shows "Parse (text_template u b (parsed ns)) (funcMap r) s = Return (Inr (funcMap r, ns))"
proof -
  have "goodName u name" if "funcMap r name \<noteq> None" for name
  proof -
    from that consider "name = ''bind''" | "name = ''identifier''" | "customFuncs r name \<noteq> None"
      by (auto simp: funcMap_eq_None)
    then show ?thesis
      using assms(1) [of name] by cases (auto simp: goodName_builtin)
  qed
  then have "(\<exists>name. funcMap r name \<noteq> None \<and> \<not> goodName u name) = False"
    by blast
  then show ?thesis
    unfolding text_template_def parsed_def using assms(2) by (simp del: not_None_eq)
qed

theorem execution_error_returns_nothing_witness:
  "(\<forall>u b. Execute (text_template u b
        (parsed [TextNode ''SELECT '', ActionNode ''bind'' [IntVal 1], ActionNode ''fail'' []]))
      (funcMap (AddFunc (NewRenderer DialectMySQL) ''fail'' fail_func),
       [TextNode ''SELECT '', ActionNode ''bind'' [IntVal 1], ActionNode ''fail'' []])
      Map.empty (NewQueryArgs DialectPostgres)
    = Return (''SELECT $1'', \<lparr>args = [IntVal 1], dialect = DialectPostgres\<rparr>,
              Some (ErrorCalling ''fail'' (Returned_error ''boom''))))
   \<and> (\<forall>u b. FromStringWithDialect
      (text_template u b
        (parsed [TextNode ''SELECT '', ActionNode ''bind'' [IntVal 1], ActionNode ''fail'' []]))
      (AddFunc (NewRenderer DialectMySQL) ''fail'' fail_func) ''SELECT {{ bind 1 }}{{ fail }}'' None DialectPostgres
    = Return ([], [], Some (ErrorCalling ''fail'' (Returned_error ''boom''))))"
proof -
  let ?ns = "[TextNode ''SELECT '', ActionNode ''bind'' [IntVal 1], ActionNode ''fail'' []]"
  let ?r = "AddFunc (NewRenderer DialectMySQL) ''fail'' fail_func"
  have p: "Parse (text_template u b (parsed ?ns)) (funcMap ?r) ''SELECT {{ bind 1 }}{{ fail }}''
      = Return (Inr (funcMap ?r, ?ns))" for u b
    by (rule Parse_text_template)
      (auto simp: AddFunc_def NewRenderer_def goodName_builtin funcMap_eq_None split: if_splits)
  have e: "Execute (text_template u b (parsed ?ns)) (funcMap ?r, ?ns)
      (case None of None \<Rightarrow> Map.empty | Some m \<Rightarrow> m) (NewQueryArgs DialectPostgres)
      = Return (''SELECT $1'', \<lparr>args = [IntVal 1], dialect = DialectPostgres\<rparr>,
                Some (ErrorCalling ''fail'' (Returned_error ''boom'')))" for u b
    by (simp add: text_template_def funcMap_def AddFunc_def NewRenderer_def map_add_def fail_func_def
        Bind_scalar_eq NewQueryArgs_def placeholderFor_Postgres fmt_d_small)
  show ?thesis
    using execution_error_returns_nothing [OF p e] e by simp
qed

text \<open>
  A renderer with a custom function whose name is not an identifier: the function table
  is refused by \<^verbatim>\<open>template.Funcs\<close>, and the panic leaves the render as a panic.
\<close>

lemma bad_function_name_panics:
  "FromStringWithDialect (text_template u b parser)
     (AddFunc (NewRenderer d) ''bad-name'' fail_func) s data d' = Panic FuncsPanic"
proof -
  have "\<not> goodName u ''bad-name''"
    by (simp add: goodName_def ascii_letter_def ascii_digit_def)
  moreover have "funcMap (AddFunc (NewRenderer d) ''bad-name'' fail_func) ''bad-name'' \<noteq> None"
    by (simp add: funcMap_eq_None AddFunc_def)
  ultimately have "\<exists>name. funcMap (AddFunc (NewRenderer d) ''bad-name'' fail_func) name \<noteq> None
      \<and> \<not> goodName u name"
    by blast
  then show ?thesis
    unfolding FromStringWithDialect_def text_template_def by (simp del: not_None_eq)
qed

text \<open>
  A call with the wrong number of arguments is an error of the execution, and nothing is
  called: here the function of the tests, which has no parameter, on one argument.
\<close>

lemma wrong_number_of_arguments:
  "exec_nodes b (funcMap (AddFunc (NewRenderer d) ''fail'' fail_func))
     [ActionNode ''fail'' [IntVal 1]] buf qa
   = (buf, qa, Some (ErrorCalling ''fail'' Wrong_arguments))"
  by (simp add: funcMap_def AddFunc_def NewRenderer_def map_add_def fail_func_def)

subsection \<open>An invalid identifier\<close>

text \<open>
  Called directly, \<^verbatim>\<open>Identifier\<close> panics on every name that has a character outside
  letters, digits, underscore and period; the panic value carries the name, no text is
  returned and the binder is unchanged.
\<close>

lemma Identifier_panics:
  assumes "\<exists>c\<in>set s. \<not> identifier_class c"
  shows "Identifier qa (StringVal s) = (Panic (InvalidIdentifier s), qa)"
proof -
  have "s \<noteq> []" using assms by auto
  moreover have "\<not> identifierPattern_MatchString s"
    using assms by (auto simp: identifierPattern_MatchString_def list_all_iff)
  ultimately show ?thesis by (simp add: Identifier_def)
qed

text \<open>
  C4. On the name \<^verbatim>\<open>users;DROP\<close>, which has a character outside letters, digits, underscore
  and period, \<^verbatim>\<open>Identifier\<close> panics with a value that carries the name and returns no text,
  as its doc comment announces. The render of \<^verbatim>\<open>{{ identifier "users;DROP" }}\<close> is not
  aborted by that panic: \<^verbatim>\<open>text/template\<close> recovers it in the call and \<^verbatim>\<open>Execute\<close> returns it
  as an error, so the caller of the render gets the empty text, no arguments and an error
  value that carries the panic value.
\<close>

theorem invalid_identifier_render_returns_error:
  "Identifier (NewQueryArgs DialectPostgres) (StringVal ''users;DROP'')
     = (Panic (InvalidIdentifier ''users;DROP''), NewQueryArgs DialectPostgres)
   \<and> FromStringWithDialect
        (text_template u b (parsed [ActionNode ''identifier'' [StringVal ''users;DROP'']]))
        (NewRenderer DialectPostgres) invalid_identifier_source None DialectPostgres
     = Return ([], [], Some (ErrorCalling ''identifier'' (Recovered_panic (InvalidIdentifier ''users;DROP''))))"
proof -
  let ?r = "NewRenderer DialectPostgres :: custom_func Renderer"
  let ?ns = "[ActionNode ''identifier'' [StringVal ''users;DROP'']]"
  have bad: "\<exists>c\<in>set ''users;DROP''. \<not> identifier_class c"
    by (simp add: identifier_class_def)
  have p: "Parse (text_template u b (parsed ?ns)) (funcMap ?r) invalid_identifier_source
      = Return (Inr (funcMap ?r, ?ns))"
    by (rule Parse_text_template) (simp_all add: NewRenderer_def funcMap_eq_None)
  have e: "Execute (text_template u b (parsed ?ns)) (funcMap ?r, ?ns)
      (case None of None \<Rightarrow> Map.empty | Some m \<Rightarrow> m) (NewQueryArgs DialectPostgres)
      = Return ([], NewQueryArgs DialectPostgres,
                Some (ErrorCalling ''identifier'' (Recovered_panic (InvalidIdentifier ''users;DROP''))))"
    by (simp add: text_template_def funcMap_def NewRenderer_def map_add_def Identifier_panics [OF bad])
  show ?thesis
    using Identifier_panics [OF bad] p e by (simp add: FromStringWithDialect_def)
qed

subsection \<open>Finding a template file\<close>

lemma findTemplateFile_loop_first:
  "\<forall>p\<in>set pre. \<not> os_Stat fs (filepath_Join fs p name) \<Longrightarrow>
   findTemplateFile_loop fs name (pre @ dirs) = findTemplateFile_loop fs name dirs"
  by (induction pre) (simp_all add: Let_def)

text \<open>
  C9. \<^verbatim>\<open>findTemplateFile\<close> returns the name itself when a file system entry exists at it;
  otherwise the name joined onto the first search path, in the order of the list, whose
  joined path exists; otherwise the not-found error, which carries the name and the whole
  list of search paths. \<^verbatim>\<open>AddSearchPath\<close> appends to the list, so its order is the order
  in which the paths were added.
\<close>

theorem findTemplateFile_order:
  "(os_Stat fs name \<longrightarrow> findTemplateFile fs r name = Inr name)
   \<and> (\<not> os_Stat fs name \<and> searchPaths r = pre @ dir # post
        \<and> (\<forall>p\<in>set pre. \<not> os_Stat fs (filepath_Join fs p name))
        \<and> os_Stat fs (filepath_Join fs dir name)
      \<longrightarrow> findTemplateFile fs r name = Inr (filepath_Join fs dir name))
   \<and> (\<not> os_Stat fs name \<and> (\<forall>p\<in>set (searchPaths r). \<not> os_Stat fs (filepath_Join fs p name))
      \<longrightarrow> findTemplateFile fs r name = Inl (TemplateNotFound name (searchPaths r)))
   \<and> searchPaths (AddSearchPath r path) = searchPaths r @ [path]"
proof -
  have none: "findTemplateFile_loop fs name (searchPaths r) = None"
    if "\<forall>p\<in>set (searchPaths r). \<not> os_Stat fs (filepath_Join fs p name)"
    using findTemplateFile_loop_first [OF that, of "[]"] by simp
  have first: "findTemplateFile_loop fs name (pre @ dir # post) = Some (filepath_Join fs dir name)"
    if "\<forall>p\<in>set pre. \<not> os_Stat fs (filepath_Join fs p name)" "os_Stat fs (filepath_Join fs dir name)"
    using findTemplateFile_loop_first [OF that(1), of "dir # post"] that(2) by (simp add: Let_def)
  show ?thesis
    using none first by (auto simp: findTemplateFile_def AddSearchPath_def)
qed

theorem findTemplateFile_order_witness:
  "findTemplateFile example_fs (NewRenderer DialectMySQL :: custom_func Renderer) ''direct.sql'' = Inr ''direct.sql''
   \<and> findTemplateFile example_fs
        (AddSearchPath (AddSearchPath (AddSearchPath (NewRenderer DialectMySQL :: custom_func Renderer) ''one'') ''sql'') ''more'')
        ''query.sql'' = Inr ''sql/query.sql''
   \<and> findTemplateFile example_fs (SetSearchPaths (NewRenderer DialectMySQL :: custom_func Renderer) [''missing_dir''])
        ''missing.sql'' = Inl (TemplateNotFound ''missing.sql'' [''missing_dir''])"
proof -
  let ?r0 = "NewRenderer DialectMySQL :: custom_func Renderer"
  let ?r1 = "AddSearchPath (AddSearchPath (AddSearchPath ?r0 ''one'') ''sql'') ''more''"
  let ?r2 = "SetSearchPaths ?r0 [''missing_dir'']"
  have sp: "searchPaths ?r1 = [''one''] @ ''sql'' # [''more'']"
    by (simp add: AddSearchPath_def NewRenderer_def)
  show ?thesis
    using findTemplateFile_order [of example_fs "''direct.sql''" ?r0]
      findTemplateFile_order [of example_fs "''query.sql''" ?r1 "[''one'']" "''sql''" "[''more'']"]
      findTemplateFile_order [of example_fs "''missing.sql''" ?r2]
      sp
    by (simp add: example_fs_def SetSearchPaths_def NewRenderer_def)
qed


subsection \<open>A render that succeeds\<close>

text \<open>
  The render of the package's tests,
  \<^verbatim>\<open>SELECT {{ identifier "public.users" }} WHERE id IN {{ bind .IDs }}\<close> with the slice
  \<^verbatim>\<open>[]int{1, 2}\<close> for \<^verbatim>\<open>.IDs\<close>, under Postgres on a renderer whose default is MySQL: the text
  and the arguments are the ones the test expects.
\<close>

lemma render_example:
  "FromStringWithDialect
     (text_template u b
        (parsed [TextNode ''SELECT '', ActionNode ''identifier'' [StringVal ''public.users''],
           TextNode '' WHERE id IN '', ActionNode ''bind'' [SliceVal [IntVal 1, IntVal 2]]]))
     (NewRenderer DialectMySQL) src data DialectPostgres
   = Return (''SELECT '' @ double_quote @ ''public'' @ double_quote @ ''.'' @ double_quote @ ''users''
               @ double_quote @ '' WHERE id IN ($1, $2)'',
             [IntVal 1, IntVal 2], None)"
proof -
  let ?r = "NewRenderer DialectMySQL :: custom_func Renderer"
  let ?ns = "[TextNode ''SELECT '', ActionNode ''identifier'' [StringVal ''public.users''],
     TextNode '' WHERE id IN '', ActionNode ''bind'' [SliceVal [IntVal 1, IntVal 2]]]"
  have p: "Parse (text_template u b (parsed ?ns)) (funcMap ?r) src = Return (Inr (funcMap ?r, ?ns))"
    by (rule Parse_text_template) (simp_all add: NewRenderer_def funcMap_eq_None)
  show ?thesis
    unfolding FromStringWithDialect_def Let_def p
    by (simp add: text_template_def funcMap_def NewRenderer_def
        map_add_def Identifier_def identifierPattern_MatchString_def identifier_class_def
        quoteIdentifier_def NewQueryArgs_def Bind_collection_eq Len_def placeholderFor_Postgres fmt_d_small)
qed

end
